theory Spec2Isabelle
  imports Main "HOL-Library.Sublist"
begin

section \<open>Python values\<close>

text \<open>
  A Python \<open>str\<close> is a sequence of Unicode code points, so the model uses lists of
  natural numbers (the generated text carries U+1F916, and the pattern \<open>\s\<close> of the
  fence stripping matches code points beyond one byte). \<open>u\<close> turns an ASCII literal
  into such a string.
\<close>

type_synonym pystr = "nat list"

definition u :: "string \<Rightarrow> pystr" where
  "u s = map of_char s"

text \<open>\<open>sep.join(items)\<close> on a list of strings.\<close>

fun join :: "pystr \<Rightarrow> pystr list \<Rightarrow> pystr" where
  "join sep [] = []"
| "join sep [x] = x"
| "join sep (x # y # ys) = x @ sep @ join sep (y # ys)"

text \<open>
  What \<open>json.loads\<close> returns. A dict keeps its keys in insertion order, so it is an
  association list. \<open>JFloat m e\<close> stands for the float \<open>m * 2 ^ e\<close>; the code only ever
  asks whether a number is zero.
\<close>

datatype json =
    JNull
  | JBool bool
  | JInt int
  | JFloat int int
  | JStr pystr
  | JList "json list"
  | JDict "(pystr \<times> json) list"

text \<open>Python truthiness (\<open>bool(v)\<close>) of a parsed value.\<close>

fun truthy :: "json \<Rightarrow> bool" where
  "truthy JNull = False"
| "truthy (JBool b) = b"
| "truthy (JInt i) = (i \<noteq> 0)"
| "truthy (JFloat m e) = (m \<noteq> 0)"
| "truthy (JStr s) = (s \<noteq> [])"
| "truthy (JList xs) = (xs \<noteq> [])"
| "truthy (JDict d) = (d \<noteq> [])"

text \<open>\<open>bool(d.get(k))\<close>: an absent key gives \<open>None\<close>, which is falsy.\<close>

definition get_truthy :: "(pystr \<times> json) list \<Rightarrow> pystr \<Rightarrow> bool" where
  "get_truthy d k = (case map_of d k of None \<Rightarrow> False | Some v \<Rightarrow> truthy v)"

text \<open>\<open>d[k] = v\<close>: an existing key keeps its place, a new key goes to the end.\<close>

fun setitem :: "(pystr \<times> json) list \<Rightarrow> pystr \<Rightarrow> json \<Rightarrow> (pystr \<times> json) list" where
  "setitem [] k v = [(k, v)]"
| "setitem (p # ps) k v = (if fst p = k then (k, v) # ps else p # setitem ps k v)"

section \<open>Exceptions\<close>

text \<open>
  The exception classes the three files raise, catch or let through.
  \<open>RequestException\<close> and \<open>HTTPError\<close> are those of the HTTP library,
  \<open>OtherException\<close> is any other subclass of \<open>Exception\<close> a collaborator may raise.
\<close>

datatype exc_kind =
    ValueError
  | JSONDecodeError
  | KeyError
  | TypeError
  | AttributeError
  | RequestException
  | HTTPError
  | LinkedInAPIError
  | LinkedInAuthError
  | LinkedInPostError
  | OtherException

text \<open>\<open>issubclass\<close>, as the \<open>except\<close> clauses use it.\<close>

fun issubclass :: "exc_kind \<Rightarrow> exc_kind \<Rightarrow> bool" where
  "issubclass JSONDecodeError ValueError = True"
| "issubclass HTTPError RequestException = True"
| "issubclass LinkedInAuthError LinkedInAPIError = True"
| "issubclass LinkedInPostError LinkedInAPIError = True"
| "issubclass k k' = (k = k')"

text \<open>
  An exception object: its class, \<open>str(e)\<close>, and the exception it was raised from
  (\<open>raise ... from e\<close>, or a \<open>raise\<close> inside an \<open>except\<close> block, which chains
  implicitly). The text of an exception raised by the interpreter itself on an ill-typed
  operation depends on the interpreter version and is \<open>None\<close>; a message built from an
  unknown text is unknown as well.
\<close>

datatype py_exc = Exc (kind: exc_kind) (message: "pystr option") (cause: "py_exc option")

definition raise :: "exc_kind \<Rightarrow> pystr \<Rightarrow> py_exc" where
  "raise k m = Exc k (Some m) None"

definition raise_from :: "exc_kind \<Rightarrow> pystr \<Rightarrow> py_exc \<Rightarrow> py_exc" where
  "raise_from k pre e = Exc k (map_option (\<lambda>m. pre @ m) (message e)) (Some e)"


text \<open>Sequencing of calls that may raise.\<close>

definition bind :: "py_exc + 'a \<Rightarrow> ('a \<Rightarrow> py_exc + 'b) \<Rightarrow> py_exc + 'b" where
  "bind r f = (case r of Inl e \<Rightarrow> Inl e | Inr v \<Rightarrow> f v)"

text \<open>
  \<open>d[k]\<close> on a dict. \<open>str\<close> of a \<open>KeyError\<close> is the \<open>repr\<close> of the key, which for the
  plain keys the code uses is the key between single quotes.
\<close>

definition getitem :: "(pystr \<times> json) list \<Rightarrow> pystr \<Rightarrow> py_exc + json" where
  "getitem d k =
     (case map_of d k of
        None \<Rightarrow> Inl (raise KeyError ([39] @ k @ [39]))
      | Some v \<Rightarrow> Inr v)"

text \<open>The strings of a list whose items are all \<open>str\<close>.\<close>

fun strs :: "json list \<Rightarrow> pystr list option" where
  "strs [] = Some []"
| "strs (JStr s # vs) = map_option (\<lambda>ss. s # ss) (strs vs)"
| "strs (v # vs) = None"

text \<open>\<open>sep.join(items)\<close> on a list of values: every item must be a \<open>str\<close>.\<close>

definition py_join :: "pystr \<Rightarrow> json list \<Rightarrow> py_exc + pystr" where
  "py_join sep items =
     (case strs items of
        None \<Rightarrow> Inl (Exc TypeError None None)
      | Some ss \<Rightarrow> Inr (join sep ss))"

text \<open>
  \<open>sep.join(v)\<close> on any parsed value: a list is joined, a \<open>str\<close> is iterated by
  character, a dict by key, and anything else is not iterable.
\<close>

fun join_value :: "pystr \<Rightarrow> json \<Rightarrow> py_exc + pystr" where
  "join_value sep (JList xs) = py_join sep xs"
| "join_value sep (JStr s) = Inr (join sep (map (\<lambda>c. [c]) s))"
| "join_value sep (JDict d) = Inr (join sep (map fst d))"
| "join_value sep v = Inl (Exc TypeError None None)"

text \<open>\<open>v += s\<close> for a \<open>str\<close> \<open>s\<close>: a \<open>str\<close> is extended, a list takes the characters.\<close>

fun iadd_str :: "json \<Rightarrow> pystr \<Rightarrow> py_exc + json" where
  "iadd_str (JStr a) s = Inr (JStr (a @ s))"
| "iadd_str (JList xs) s = Inr (JList (xs @ map (\<lambda>c. JStr [c]) s))"
| "iadd_str v s = Inl (Exc TypeError None None)"

section \<open>Collaborators and effects\<close>

text \<open>
  The JSON codec, the language-model conversation and the HTTP library are not part of
  the repository: they are parameters of the model. \<open>loads\<close> gives the parsed value or
  the exception it raises: a \<open>JSONDecodeError\<close> for malformed text, but it may be
  another one (a plain \<open>ValueError\<close> for an integer literal with too many digits).
\<close>

type_synonym loads = "pystr \<Rightarrow> py_exc + json"
type_synonym dumps = "json \<Rightarrow> pystr"

text \<open>\<open>os.getenv\<close>: the process environment.\<close>

type_synonym environ = "pystr \<Rightarrow> pystr option"

record llm_config =
  llm_model :: pystr
  llm_api_key :: pystr
  llm_api_type :: pystr

text \<open>
  \<open>content_optimizer.initiate_chat(recipient=technical_writer, message=prompt,
  max_turns=2, summary_method="last_msg").summary\<close>, with the two agents built from the
  \<open>llm_config\<close> and the fixed system messages of \<open>_create_agents\<close>.
\<close>

type_synonym chat = "llm_config \<Rightarrow> pystr \<Rightarrow> py_exc + pystr"

datatype body = JsonBody json | FormBody "(pystr \<times> pystr) list"

datatype http_request =
    HttpPost pystr "(pystr \<times> pystr) list" body
  | HttpGet pystr "(pystr \<times> pystr) list"

text \<open>
  A response, as far as the code looks at it: \<open>raise_for_status()\<close> raises or not, and
  \<open>json()\<close> raises or returns the parsed body. The HTTP library answers a request in
  the process environment of the call, which it reads itself (proxies, certificate
  bundle), so the collaborator is a function of both.
\<close>

record http_response =
  raise_for_status :: "py_exc option"
  response_json :: "py_exc + json"

type_synonym http = "environ \<Rightarrow> http_request \<Rightarrow> py_exc + http_response"

datatype out_line =
    Generating
  | GeneratedPost pystr
  | FetchingUserInfo
  | UserInfo json
  | CreatingPost
  | PostCreated json

datatype err_category =
    AuthenticationError
  | LinkedInAPIErr
  | ConfigurationError
  | UnexpectedError

text \<open>What a run does to the outside, in order.\<close>

datatype event =
    ChatCall llm_config pystr
  | HttpCall http_request
  | Stdout out_line
  | Stderr err_category "pystr option"

section \<open>Generator service\<close>

subsection \<open>Configuration\<close>

text \<open>\<open>not os.getenv(name)\<close>: unset or empty.\<close>

definition unset :: "environ \<Rightarrow> pystr \<Rightarrow> bool" where
  "unset env name = (case env name of None \<Rightarrow> True | Some v \<Rightarrow> v = [])"

record GeminiConfig =
  api_key :: pystr
  model :: pystr

definition GeminiConfig_from_env :: "environ \<Rightarrow> py_exc + GeminiConfig" where
  "GeminiConfig_from_env env =
     (if unset env (u ''GEMINI_API_KEY'') \<or> unset env (u ''GEMINI_MODEL'') then
        (let missing = (if unset env (u ''GEMINI_API_KEY'') then [u ''GEMINI_API_KEY''] else [])
                     @ (if unset env (u ''GEMINI_MODEL'') then [u ''GEMINI_MODEL''] else [])
         in Inl (raise ValueError
                   (u ''Missing required environment variables: '' @ join (u '', '') missing)))
      else Inr \<lparr>api_key = the (env (u ''GEMINI_API_KEY'')),
                model = the (env (u ''GEMINI_MODEL''))\<rparr>)"

text \<open>\<open>LinkedInPostGenerator.__init__\<close>: the generator object is its \<open>llm_config\<close>.\<close>

definition LinkedInPostGenerator :: "environ \<Rightarrow> py_exc + llm_config" where
  "LinkedInPostGenerator env =
     (case GeminiConfig_from_env env of
        Inl e \<Rightarrow> Inl e
      | Inr config \<Rightarrow>
          Inr \<lparr>llm_model = model config, llm_api_key = api_key config,
               llm_api_type = u ''google''\<rparr>)"

subsection \<open>Prompt\<close>

definition create_linkedin_prompt :: "pystr \<Rightarrow> pystr" where
  \<open>create_linkedin_prompt topic =
     u ''Create an engaging LinkedIn post about '' @ topic @ u ''. The post should:\<newline>''
   @ u ''        - Be optimized for LinkedIn's professional audience\<newline>''
   @ u ''        - Be between 150-200 words\<newline>''
   @ u ''        - Include line breaks for readability\<newline>''
   @ u ''        - Focus on providing value and insights\<newline>''
   @ u ''        - Include a short, relevant code snippet (3-5 lines max) that demonstrates a key concept\<newline>''
   @ u ''        - Format the code properly with ```c# ``` markdown syntax\<newline>''
   @ u ''        - End with an engaging question that encourages discussion\<newline>''
   @ u ''        - Add 3-4 relevant hashtags\<newline>''
   @ u ''        - Use a professional and approachable tone\<newline>''
   @ u ''        - Avoid using emojis\<newline>''
   @ u ''        - provide output in json format {"title": "", "content": "", "code": "", "hashtags": [], "question": ""}\<newline>''
   @ u ''        ''\<close>

subsection \<open>Fence stripping\<close>

text \<open>
  \<open>re.sub(r'```json\s*|\s*```', '', summary, flags=re.DOTALL)\<close>.
  \<open>is_space\<close> is what \<open>\s\<close> matches in a \<open>str\<close> pattern: the Unicode whitespace.
\<close>

definition is_space :: "nat \<Rightarrow> bool" where
  "is_space c \<longleftrightarrow>
     (9 \<le> c \<and> c \<le> 13) \<or> (28 \<le> c \<and> c \<le> 32) \<or> c = 0x85 \<or> c = 0xA0 \<or> c = 0x1680
     \<or> (0x2000 \<le> c \<and> c \<le> 0x200A) \<or> c = 0x2028 \<or> c = 0x2029 \<or> c = 0x202F
     \<or> c = 0x205F \<or> c = 0x3000"

text \<open>
  One match attempt at the start of \<open>s\<close>; the result is what follows the match. The
  first alternative is tried first; \<open>\s*\<close> is greedy, and giving whitespace back can
  never make the three backticks of the second alternative match.
\<close>

definition match_fence :: "pystr \<Rightarrow> pystr option" where
  "match_fence s =
     (if prefix (u ''```json'') s then Some (dropWhile is_space (drop 7 s))
      else if prefix (u ''```'') (dropWhile is_space s)
           then Some (drop 3 (dropWhile is_space s))
      else None)"

text \<open>The scan of \<open>re.sub\<close>: leftmost matches, none overlapping, each replaced by \<open>''\<close>.\<close>

function re_sub_fence :: "pystr \<Rightarrow> pystr" where
  "re_sub_fence [] = []"
| "re_sub_fence (c # cs) =
     (case match_fence (c # cs) of
        Some rest \<Rightarrow> re_sub_fence rest
      | None \<Rightarrow> c # re_sub_fence cs)"
  by pat_completeness auto
termination
proof (relation "measure length")
  show "wf (measure length)" by simp
next
  fix c :: nat and cs rest :: pystr
  assume m: "match_fence (c # cs) = Some rest"
  have "length rest < length (c # cs)"
  proof (cases "prefix (u ''```json'') (c # cs)")
    case True
    then have r: "rest = dropWhile is_space (drop 7 (c # cs))"
      using m by (simp add: match_fence_def)
    have "length rest \<le> length (drop 7 (c # cs))"
      unfolding r by (rule length_dropWhile_le)
    also have "\<dots> < length (c # cs)" by simp
    finally show ?thesis .
  next
    case False
    then have p: "prefix (u ''```'') (dropWhile is_space (c # cs))"
      and r: "rest = drop 3 (dropWhile is_space (c # cs))"
      using m by (auto simp: match_fence_def split: if_splits)
    have "ys \<noteq> []" if "prefix (u ''```'') ys" for ys :: pystr
      using that by (auto simp: u_def)
    from this [OF p] have "dropWhile is_space (c # cs) \<noteq> []" .
    then have "length rest < length (dropWhile is_space (c # cs))"
      unfolding r by simp
    also have "\<dots> \<le> length (c # cs)"
      by (rule length_dropWhile_le)
    finally show ?thesis .
  qed
  then show "(rest, c # cs) \<in> measure length" by simp
next
  fix c :: nat and cs :: pystr
  show "(cs, c # cs) \<in> measure length" by simp
qed

subsection \<open>Disclosure\<close>

definition disclosure :: pystr where
  "disclosure = u ''\<newline>\<newline>---\<newline>'' @ [0x1F916]
     @ u '' This post was generated with the help of AI.''"

definition ai_hashtags :: "json list" where
  "ai_hashtags = [JStr (u ''#AIGenerated''), JStr (u ''#GeminiAI'')]"

text \<open>\<open>except json.JSONDecodeError as e: raise ValueError(...) from e\<close> around \<open>json.loads\<close>.\<close>

definition except_JSONDecodeError :: "py_exc + 'a \<Rightarrow> py_exc + 'a" where
  "except_JSONDecodeError r =
     (case r of
        Inl e \<Rightarrow>
          if issubclass (kind e) JSONDecodeError
          then Inl (raise_from ValueError (u ''Invalid JSON format: '') e)
          else Inl e
      | Inr v \<Rightarrow> Inr v)"

text \<open>
  Only \<open>json.JSONDecodeError\<close> is caught, and in the \<open>try\<close> only \<open>json.loads\<close> can
  raise it: every other exception leaves the function as it is. Indexing a value that
  is not a dict raises \<open>TypeError\<close>.
\<close>

definition add_ai_disclosure :: "loads \<Rightarrow> dumps \<Rightarrow> pystr \<Rightarrow> py_exc + pystr" where
  "add_ai_disclosure loads dumps post_json =
     (case except_JSONDecodeError (loads post_json) of
        Inl e \<Rightarrow> Inl e
      | Inr (JDict post_dict) \<Rightarrow>
          bind (getitem post_dict (u ''content'')) (\<lambda>content.
          bind (iadd_str content disclosure) (\<lambda>content'.
            let d = setitem post_dict (u ''content'') content' in
            Inr (dumps (JDict
              (case map_of d (u ''hashtags'') of
                 Some (JList hashtags) \<Rightarrow>
                   setitem d (u ''hashtags'') (JList (hashtags @ ai_hashtags))
               | _ \<Rightarrow> setitem d (u ''hashtags'') (JList ai_hashtags))))))
      | Inr _ \<Rightarrow> Inl (Exc TypeError None None))"

subsection \<open>Renderer\<close>

definition required_fields :: "pystr list" where
  "required_fields = [u ''title'', u ''content'', u ''hashtags'', u ''question'']"

text \<open>
  The \<open>ValueError\<close> for missing fields is raised inside the \<open>try\<close>, but the handler
  is for \<open>json.JSONDecodeError\<close> only, so it leaves the function as it is. A value
  that is not a dict has no \<open>get\<close>.
\<close>

definition convert_to_linkedin_post :: "loads \<Rightarrow> pystr \<Rightarrow> py_exc + pystr" where
  "convert_to_linkedin_post loads post_json =
     (case except_JSONDecodeError (loads post_json) of
        Inl e \<Rightarrow> Inl e
      | Inr (JDict post_dict) \<Rightarrow>
          (let missing_fields = filter (\<lambda>field. \<not> get_truthy post_dict field) required_fields
           in if missing_fields \<noteq> [] then
                Inl (raise ValueError
                       (u ''Missing required fields: '' @ join (u '', '') missing_fields))
              else
                bind (getitem post_dict (u ''title'')) (\<lambda>title.
                bind (getitem post_dict (u ''content'')) (\<lambda>content.
                let post_parts = [title, JStr (u ''\<newline>\<newline>''), content];
                    post_parts =
                      (if get_truthy post_dict (u ''code'') then
                         post_parts @ [JStr (u ''\<newline>\<newline>```c#\<newline>''),
                                       the (map_of post_dict (u ''code'')),
                                       JStr (u ''\<newline>```'')]
                       else post_parts)
                in
                bind (getitem post_dict (u ''question'')) (\<lambda>question.
                bind (getitem post_dict (u ''hashtags'')) (\<lambda>hashtags.
                bind (join_value (u '' '') hashtags) (\<lambda>joined.
                  py_join [] (post_parts @ [JStr (u ''\<newline>\<newline>''), question,
                                            JStr (u ''\<newline>\<newline>''), JStr joined])))))))
      | Inr _ \<Rightarrow> Inl (Exc AttributeError None None))"

subsection \<open>Pipeline\<close>

text \<open>
  \<open>generate_post\<close> on a generator object \<open>self\<close> (its \<open>llm_config\<close>). The result
  comes with the calls made to the language-model backend.
\<close>

definition generate_post ::
  "loads \<Rightarrow> dumps \<Rightarrow> chat \<Rightarrow> llm_config \<Rightarrow> pystr \<Rightarrow> bool \<Rightarrow> event list \<times> (py_exc + pystr)" where
  "generate_post loads dumps chat self topic add_disclosure =
     (if topic = [] then ([], Inl (raise ValueError (u ''Topic is required'')))
      else
        (let prompt = create_linkedin_prompt topic in
         ([ChatCall self prompt],
          bind (chat self prompt) (\<lambda>summary.
            let cleaned_summary = re_sub_fence summary in
            if add_disclosure then
              bind (add_ai_disclosure loads dumps cleaned_summary) (\<lambda>cleaned_summary.
                convert_to_linkedin_post loads cleaned_summary)
            else convert_to_linkedin_post loads cleaned_summary))))"

section \<open>LinkedIn service\<close>

record LinkedInConfig =
  api_url :: pystr
  client_id :: pystr
  client_secret :: pystr
  redirect_uri :: pystr

text \<open>The keys of the dict \<open>required_vars\<close>, in its order.\<close>

definition required_vars :: "pystr list" where
  "required_vars = [u ''LINKEDIN_API_URL'', u ''LINKEDIN_CLIENT_ID'',
                    u ''LINKEDIN_CLIENT_SECRET'', u ''LINKEDIN_REDIRECT_URI'']"

text \<open>
  The four lookups are made first, then every name whose value is unset or empty is
  collected, in the order of the dict. Past the check all four values are present.
\<close>

definition LinkedInConfig_from_env :: "environ \<Rightarrow> py_exc + LinkedInConfig" where
  "LinkedInConfig_from_env env =
     (let missing_vars = filter (unset env) required_vars
      in if missing_vars \<noteq> [] then
           Inl (raise ValueError
                  (u ''Missing required environment variables: '' @ join (u '', '') missing_vars))
         else Inr \<lparr>api_url = the (env (u ''LINKEDIN_API_URL'')),
                   client_id = the (env (u ''LINKEDIN_CLIENT_ID'')),
                   client_secret = the (env (u ''LINKEDIN_CLIENT_SECRET'')),
                   redirect_uri = the (env (u ''LINKEDIN_REDIRECT_URI''))\<rparr>)"

text \<open>
  \<open>except RequestException as e: raise K(f"{pre}{str(e)}") from e\<close> around a block:
  any other exception passes through.
\<close>

definition except_RequestException :: "exc_kind \<Rightarrow> pystr \<Rightarrow> py_exc + 'a \<Rightarrow> py_exc + 'a" where
  "except_RequestException k pre r =
     (case r of
        Inl e \<Rightarrow> if issubclass (kind e) RequestException then Inl (raise_from k pre e) else Inl e
      | Inr v \<Rightarrow> Inr v)"

text \<open>\<open>except Exception as e: raise ValueError(f"{pre}{str(e)}")\<close> around a block.\<close>

definition except_Exception :: "exc_kind \<Rightarrow> pystr \<Rightarrow> py_exc + 'a \<Rightarrow> py_exc + 'a" where
  "except_Exception k pre r =
     (case r of Inl e \<Rightarrow> Inl (raise_from k pre e) | Inr v \<Rightarrow> Inr v)"

text \<open>The request, \<open>raise_for_status()\<close> and \<open>json()\<close>, as the three functions chain them.\<close>

definition send :: "http \<Rightarrow> environ \<Rightarrow> http_request \<Rightarrow> py_exc + json" where
  "send http env req =
     bind (http env req) (\<lambda>response.
       case raise_for_status response of
         Some e \<Rightarrow> Inl e
       | None \<Rightarrow> response_json response)"

text \<open>
  \<open>f"{v}"\<close>: a \<open>str\<close> is itself; the text of any other value is the interpreter's
  \<open>str()\<close>, a parameter.
\<close>

definition format_value :: "(json \<Rightarrow> pystr) \<Rightarrow> json \<Rightarrow> pystr" where
  "format_value py_str v = (case v of JStr s \<Rightarrow> s | _ \<Rightarrow> py_str v)"

text \<open>
  \<open>author_id\<close> is annotated \<open>str\<close>, but the entry point passes \<open>user_info["sub"]\<close>,
  whatever the response holds, so it is a parsed value here.
\<close>

definition create_linkedin_ugc_post ::
  "(json \<Rightarrow> pystr) \<Rightarrow> http \<Rightarrow> environ \<Rightarrow> pystr \<Rightarrow> json \<Rightarrow> pystr \<Rightarrow> event list \<times> (py_exc + json)" where
  "create_linkedin_ugc_post py_str http env access_token author_id text =
     (if access_token = [] \<or> \<not> truthy author_id \<or> text = [] then
        ([], Inl (raise ValueError (u ''access_token, author_id, and text are all required'')))
      else
        (case LinkedInConfig_from_env env of
           Inl e \<Rightarrow> ([], Inl e)
         | Inr config \<Rightarrow>
             (let headers = [(u ''Authorization'', u ''Bearer '' @ access_token),
                             (u ''Content-Type'', u ''application/json''),
                             (u ''X-Restli-Protocol-Version'', u ''2.0.0'')];
                  payload = JDict
                    [(u ''author'', JStr (u ''urn:li:person:'' @ format_value py_str author_id)),
                     (u ''lifecycleState'', JStr (u ''PUBLISHED'')),
                     (u ''specificContent'', JDict
                        [(u ''com.linkedin.ugc.ShareContent'', JDict
                            [(u ''shareCommentary'', JDict [(u ''text'', JStr text)]),
                             (u ''shareMediaCategory'', JStr (u ''NONE''))])]),
                     (u ''visibility'', JDict
                        [(u ''com.linkedin.ugc.MemberNetworkVisibility'', JStr (u ''PUBLIC''))])];
                  req = HttpPost (api_url config @ u ''/v2/ugcPosts'') headers (JsonBody payload)
              in ([HttpCall req],
                  except_RequestException LinkedInPostError (u ''Failed to create UGC post: '')
                    (send http env req)))))"

text \<open>\<open>key in v\<close> for a \<open>str\<close> key.\<close>

fun py_in :: "pystr \<Rightarrow> json \<Rightarrow> py_exc + bool" where
  "py_in k (JDict d) = Inr (map_of d k \<noteq> None)"
| "py_in k (JList xs) = Inr (JStr k \<in> set xs)"
| "py_in k (JStr s) = Inr (sublist k s)"
| "py_in k v = Inl (Exc TypeError None None)"

text \<open>\<open>v[key]\<close> for a \<open>str\<close> key: only a dict can be indexed by a \<open>str\<close>.\<close>

fun py_getitem :: "json \<Rightarrow> pystr \<Rightarrow> py_exc + json" where
  "py_getitem (JDict d) k = getitem d k"
| "py_getitem v k = Inl (Exc TypeError None None)"

text \<open>
  The \<open>LinkedInAuthError\<close> for a response without token is raised inside the \<open>try\<close>;
  it is no \<open>RequestException\<close>, so it leaves the function as it is.
\<close>

definition get_linkedin_access_token ::
  "http \<Rightarrow> environ \<Rightarrow> pystr \<Rightarrow> event list \<times> (py_exc + json)" where
  "get_linkedin_access_token http env code =
     (if code = [] then ([], Inl (raise ValueError (u ''Authorization code is required'')))
      else
        (case LinkedInConfig_from_env env of
           Inl e \<Rightarrow> ([], Inl e)
         | Inr config \<Rightarrow>
             (let payload = [(u ''grant_type'', u ''authorization_code''),
                             (u ''code'', code),
                             (u ''redirect_uri'', redirect_uri config),
                             (u ''client_id'', client_id config),
                             (u ''client_secret'', client_secret config)];
                  req = HttpPost (api_url config @ u ''/oauth/v2/accessToken'') [] (FormBody payload)
              in ([HttpCall req],
                  except_RequestException LinkedInAuthError (u ''Failed to get access token: '')
                    (bind (send http env req) (\<lambda>token_data.
                     bind (py_in (u ''access_token'') token_data) (\<lambda>found.
                       if \<not> found then
                         Inl (raise LinkedInAuthError (u ''Access token not found in response''))
                       else py_getitem token_data (u ''access_token''))))))))"

definition linkedin_auth :: "http \<Rightarrow> environ \<Rightarrow> pystr \<Rightarrow> event list \<times> (py_exc + json)" where
  "linkedin_auth http env code =
     (case get_linkedin_access_token http env code of
        (evs, r) \<Rightarrow> (evs, bind r (\<lambda>access_token. Inr (JDict [(u ''access_token'', access_token)]))))"

definition get_linkedin_userinfo ::
  "http \<Rightarrow> environ \<Rightarrow> pystr \<Rightarrow> event list \<times> (py_exc + json)" where
  "get_linkedin_userinfo http env access_token =
     (if access_token = [] then ([], Inl (raise ValueError (u ''Access token is required'')))
      else
        (case LinkedInConfig_from_env env of
           Inl e \<Rightarrow> ([], Inl e)
         | Inr config \<Rightarrow>
             (let headers = [(u ''Authorization'', u ''Bearer '' @ access_token)];
                  req = HttpGet (api_url config @ u ''/v2/userinfo'') headers
              in ([HttpCall req],
                  except_RequestException LinkedInAuthError (u ''Failed to fetch userinfo: '')
                    (send http env req)))))"

section \<open>Entry point\<close>

text \<open>
  The \<open>LinkedInAuthError\<close> and the \<open>ValueError\<close> raised inside the \<open>try\<close> blocks
  below are caught by the \<open>except Exception\<close> of the same block and raised again.
\<close>

definition authenticate_linkedin ::
  "http \<Rightarrow> environ \<Rightarrow> pystr \<Rightarrow> event list \<times> (py_exc + json)" where
  "authenticate_linkedin http env code =
     (case linkedin_auth http env code of
        (evs, r) \<Rightarrow>
          (evs, except_Exception LinkedInAuthError (u ''LinkedIn authentication failed: '')
             (bind r (\<lambda>response.
                if \<not> truthy response then
                  Inl (raise LinkedInAuthError (u ''Failed to get access token from LinkedIn''))
                else
                  bind (py_in (u ''access_token'') response) (\<lambda>found.
                    if \<not> found then
                      Inl (raise LinkedInAuthError (u ''Failed to get access token from LinkedIn''))
                    else Inr response)))))"

definition fetch_linkedin_userinfo ::
  "http \<Rightarrow> environ \<Rightarrow> pystr \<Rightarrow> event list \<times> (py_exc + json)" where
  "fetch_linkedin_userinfo http env access_token =
     (if access_token = [] then ([], Inl (raise ValueError (u ''Access token is required'')))
      else
        (case get_linkedin_userinfo http env access_token of
           (evs, r) \<Rightarrow>
             (evs, except_Exception ValueError (u ''Failed to fetch LinkedIn user info: '')
                (bind r (\<lambda>user_info.
                   if \<not> truthy user_info then
                     Inl (raise ValueError (u ''Invalid user info response from LinkedIn''))
                   else
                     bind (py_in (u ''sub'') user_info) (\<lambda>found.
                       if \<not> found then
                         Inl (raise ValueError (u ''Invalid user info response from LinkedIn''))
                       else Inr user_info))))))"

definition post_linkedin_ugc ::
  "(json \<Rightarrow> pystr) \<Rightarrow> http \<Rightarrow> environ \<Rightarrow> pystr \<Rightarrow> json \<Rightarrow> pystr \<Rightarrow> event list \<times> (py_exc + json)" where
  "post_linkedin_ugc py_str http env access_token author_id text =
     (if access_token = [] \<or> \<not> truthy author_id \<or> text = [] then
        ([], Inl (raise ValueError (u ''Access token, author ID, and text are all required'')))
      else
        (case create_linkedin_ugc_post py_str http env access_token author_id text of
           (evs, r) \<Rightarrow>
             (evs, except_Exception ValueError (u ''Failed to create LinkedIn post: '') r)))"

text \<open>The \<open>except\<close> clauses of \<open>main\<close>, in their order; each prints and exits with 1.\<close>

definition main_except :: "py_exc \<Rightarrow> event" where
  "main_except e =
     (if issubclass (kind e) LinkedInAuthError then
        Stderr AuthenticationError (map_option (\<lambda>m. u ''Authentication Error: '' @ m) (message e))
      else if issubclass (kind e) LinkedInAPIError then
        Stderr LinkedInAPIErr (map_option (\<lambda>m. u ''LinkedIn API Error: '' @ m) (message e))
      else if issubclass (kind e) ValueError then
        Stderr ConfigurationError (map_option (\<lambda>m. u ''Configuration Error: '' @ m) (message e))
      else
        Stderr UnexpectedError (map_option (\<lambda>m. u ''Unexpected Error: '' @ m) (message e)))"

text \<open>A step of the \<open>try\<close> block: its events, then the rest unless it raised.\<close>

definition step ::
  "event list \<times> (py_exc + 'a) \<Rightarrow> ('a \<Rightarrow> event list \<times> (py_exc + 'b)) \<Rightarrow> event list \<times> (py_exc + 'b)" where
  "step r f =
     (case r of
        (evs, Inl e) \<Rightarrow> (evs, Inl e)
      | (evs, Inr v) \<Rightarrow> (case f v of (evs', r') \<Rightarrow> (evs @ evs', r')))"

text \<open>The body of the \<open>try\<close> of \<open>main\<close>.\<close>

definition main_try ::
  "loads \<Rightarrow> dumps \<Rightarrow> chat \<Rightarrow> (json \<Rightarrow> pystr) \<Rightarrow> http \<Rightarrow> environ \<Rightarrow> event list \<times> (py_exc + unit)" where
  "main_try loads dumps chat py_str http env =
     step ([], LinkedInConfig_from_env env) (\<lambda>_.
     step ([], LinkedInPostGenerator env) (\<lambda>post_generator.
     step ([], if unset env (u ''LINKEDIN_ACCESS_TOKEN'') then
                 Inl (raise ValueError
                        (u ''LINKEDIN_ACCESS_TOKEN environment variable is not set''))
               else Inr (the (env (u ''LINKEDIN_ACCESS_TOKEN'')))) (\<lambda>access_token.
     step ([Stdout Generating], Inr ()) (\<lambda>_.
     step (generate_post loads dumps chat post_generator (u ''C# generics'') True) (\<lambda>post_content.
     step ([Stdout (GeneratedPost post_content), Stdout FetchingUserInfo], Inr ()) (\<lambda>_.
     step (fetch_linkedin_userinfo http env access_token) (\<lambda>user_info.
     step ([], if \<not> truthy user_info then
                 Inl (raise ValueError (u ''Failed to fetch LinkedIn user info''))
               else Inr ()) (\<lambda>_.
     step ([Stdout (UserInfo user_info), Stdout CreatingPost], Inr ()) (\<lambda>_.
     step ([], py_getitem user_info (u ''sub'')) (\<lambda>sub.
     step (post_linkedin_ugc py_str http env access_token sub post_content) (\<lambda>post_response.
       ([Stdout (PostCreated post_response)], Inr ()))))))))))))"

text \<open>\<open>main\<close>: the events of the run and the exit status of the process.\<close>

definition main ::
  "loads \<Rightarrow> dumps \<Rightarrow> chat \<Rightarrow> (json \<Rightarrow> pystr) \<Rightarrow> http \<Rightarrow> environ \<Rightarrow> event list \<times> nat" where
  "main loads dumps chat py_str http env =
     (case main_try loads dumps chat py_str http env of
        (evs, Inl e) \<Rightarrow> (evs @ [main_except e], 1)
      | (evs, Inr _) \<Rightarrow> (evs, 0))"

section \<open>Example inputs\<close>

text \<open>
  A JSON codec stub that gives the same value for every text; the examples apply it to
  the JSON text of that value.
\<close>

definition ex_loads :: "json \<Rightarrow> loads" where
  "ex_loads v = (\<lambda>s. Inr v)"

definition ex_post :: "(pystr \<times> json) list" where
  "ex_post =
     [(u ''title'', JStr (u ''T'')), (u ''content'', JStr (u ''C'')),
      (u ''code'', JStr (u ''x'')), (u ''hashtags'', JList [JStr (u ''#a''), JStr (u ''#b'')]),
      (u ''question'', JStr (u ''Q?''))]"

text \<open>A draft, what one disclosure makes of it, and a codec stub telling them apart.\<close>

definition ex_draft :: "(pystr \<times> json) list" where
  "ex_draft =
     [(u ''content'', JStr (u ''C'')), (u ''title'', JStr (u ''T'')),
      (u ''question'', JStr (u ''Q?''))]"

definition ex_disclosed :: "(pystr \<times> json) list" where
  "ex_disclosed =
     [(u ''content'', JStr (u ''C'' @ disclosure)), (u ''title'', JStr (u ''T'')),
      (u ''question'', JStr (u ''Q?'')),
      (u ''hashtags'', JList [JStr (u ''#AIGenerated''), JStr (u ''#GeminiAI'')])]"

definition ex_codec_loads :: loads where
  "ex_codec_loads s = (if s = u ''1'' then Inr (JDict ex_disclosed) else Inr (JDict ex_draft))"

definition ex_codec_dumps :: dumps where
  "ex_codec_dumps v = (if v = JDict ex_disclosed then u ''1'' else u ''2'')"

text \<open>A JSON object without \<open>content\<close>.\<close>

definition ex_no_content :: "(pystr \<times> json) list" where
  "ex_no_content = [(u ''title'', JStr (u ''T''))]"

text \<open>A complete environment, and one where nothing is set.\<close>

definition ex_env :: environ where
  "ex_env = map_of
     [(u ''LINKEDIN_API_URL'', u ''https://api.linkedin.com''),
      (u ''LINKEDIN_CLIENT_ID'', u ''id''),
      (u ''LINKEDIN_CLIENT_SECRET'', u ''secret''),
      (u ''LINKEDIN_REDIRECT_URI'', u ''https://localhost/callback''),
      (u ''LINKEDIN_ACCESS_TOKEN'', u ''token''),
      (u ''GEMINI_API_KEY'', u ''key''),
      (u ''GEMINI_MODEL'', u ''gemini'')]"




text \<open>An HTTP stub whose every response fails the status check.\<close>

definition ex_http_error :: py_exc where
  "ex_http_error = Exc HTTPError (Some (u ''404 Client Error: Not Found'')) None"

definition ex_http_404 :: http where
  "ex_http_404 env req = Inr \<lparr>raise_for_status = Some ex_http_error, response_json = Inr JNull\<rparr>"

text \<open>A stub for \<open>str()\<close> on values that are not strings.\<close>

definition ex_py_str :: "json \<Rightarrow> pystr" where
  "ex_py_str v = u ''?''"



text \<open>A backend stub whose final message is an empty JSON object in a fence.\<close>

definition ex_chat :: chat where
  "ex_chat cfg prompt = Inr (u ''```json\<newline>{}\<newline>```'')"

text \<open>
  A draft without title and question, with an empty content and no hashtag, and one
  where only the question is empty.
\<close>

definition ex_incomplete :: "(pystr \<times> json) list" where
  "ex_incomplete =
     [(u ''content'', JStr []), (u ''hashtags'', JList []), (u ''code'', JStr (u ''x''))]"

definition ex_no_question :: "(pystr \<times> json) list" where
  "ex_no_question =
     [(u ''title'', JStr (u ''T'')), (u ''content'', JStr (u ''C'')),
      (u ''hashtags'', JList [JStr (u ''#a'')]), (u ''question'', JStr [])]"

text \<open>The JSON texts of these drafts and of \<open>ex_no_content\<close>.\<close>

definition ex_post_json :: pystr where
  \<open>ex_post_json =
     u ''{"title": "T", "content": "C", "code": "x", "hashtags": ["#a", "#b"], "question": "Q?"}''\<close>

definition ex_incomplete_json :: pystr where
  \<open>ex_incomplete_json = u ''{"content": "", "hashtags": [], "code": "x"}''\<close>

definition ex_no_question_json :: pystr where
  \<open>ex_no_question_json =
     u ''{"title": "T", "content": "C", "hashtags": ["#a"], "question": ""}''\<close>

definition ex_no_content_json :: pystr where
  \<open>ex_no_content_json = u ''{"title": "T"}''\<close>

section \<open>Auxiliary facts\<close>

lemma sublist_join: "f \<in> set xs \<Longrightarrow> sublist f (join sep xs)"
proof (induction sep xs rule: join.induct)
  case (3 sep x y ys)
  show ?case
  proof (cases "f = x")
    case True
    then show ?thesis by simp
  next
    case False
    with 3 have "sublist f (join sep (y # ys))" by simp
    then show ?thesis by (simp add: sublist_append)
  qed
qed simp_all

lemma get_truthy_falsy:
  "\<not> get_truthy d k \<longleftrightarrow>
     map_of d k \<in> {None, Some JNull, Some (JBool False), Some (JInt 0), Some (JStr []),
                    Some (JList []), Some (JDict [])}
     \<or> (\<exists>e. map_of d k = Some (JFloat 0 e))"
proof (cases "map_of d k")
  case None
  then show ?thesis by (simp add: get_truthy_def)
next
  case (Some v)
  then show ?thesis by (cases v) (auto simp: get_truthy_def)
qed

lemma match_fence_needs_backticks:
  assumes "match_fence s = Some rest"
  shows "sublist (u ''```'') s"
proof (cases "prefix (u ''```json'') s")
  case True
  have "prefix (u ''```'') (u ''```json'')" by (simp add: u_def)
  then have "prefix (u ''```'') s" using True by (rule prefix_order.order_trans)
  then show ?thesis by (rule prefix_imp_sublist)
next
  case False
  then have "prefix (u ''```'') (dropWhile is_space s)"
    using assms by (auto simp: match_fence_def split: if_splits)
  then have "sublist (u ''```'') (dropWhile is_space s)" by (rule prefix_imp_sublist)
  moreover have "suffix (dropWhile is_space s) s" by (rule suffix_dropWhile)
  ultimately show ?thesis
    by (meson suffix_imp_sublist sublist_order.order_trans)
qed

lemma match_fence_suffix:
  assumes "match_fence s = Some rest"
  shows "suffix rest s"
proof (cases "prefix (u ''```json'') s")
  case True
  then have "rest = dropWhile is_space (drop 7 s)"
    using assms by (simp add: match_fence_def)
  then show ?thesis
    by (metis suffix_dropWhile suffix_drop suffix_order.order_trans)
next
  case False
  then have "rest = drop 3 (dropWhile is_space s)"
    using assms by (auto simp: match_fence_def split: if_splits)
  then show ?thesis
    by (metis suffix_dropWhile suffix_drop suffix_order.order_trans)
qed

lemma re_sub_fence_id: "\<not> sublist (u ''```'') s \<Longrightarrow> re_sub_fence s = s"
proof (induction s rule: re_sub_fence.induct)
  case 1
  show ?case by simp
next
  case (2 c cs)
  from 2(3) have none: "match_fence (c # cs) = None"
    using match_fence_needs_backticks by (cases "match_fence (c # cs)") auto
  have "\<not> sublist (u ''```'') cs"
    using 2(3) by (meson sublist_Cons_right)
  with 2(1) [OF none] have "re_sub_fence cs = cs" by simp
  with none show ?case by simp
qed

lemma re_sub_fence_subseq: "subseq (re_sub_fence s) s"
proof (induction s rule: re_sub_fence.induct)
  case 1
  show ?case by simp
next
  case (2 c cs)
  show ?case
  proof (cases "match_fence (c # cs)")
    case None
    with 2(1) [OF None] show ?thesis by simp
  next
    case (Some rest)
    then have "subseq (re_sub_fence rest) rest" by (rule 2(2))
    moreover have "subseq rest (c # cs)"
      using match_fence_suffix [OF Some] by (meson suffix_imp_sublist sublist_imp_subseq)
    ultimately have "subseq (re_sub_fence rest) (c # cs)"
      by (rule subseq_order.order_trans)
    with Some show ?thesis by simp
  qed
qed

lemma re_sub_fence_match: "s \<noteq> [] \<Longrightarrow> match_fence s = Some rest \<Longrightarrow> re_sub_fence s = re_sub_fence rest"
  by (cases s) simp_all

lemma re_sub_fence_no_match: "match_fence (c # cs) = None \<Longrightarrow> re_sub_fence (c # cs) = c # re_sub_fence cs"
  by simp

lemma backtick_not_space: "\<not> is_space 96"
  by (simp add: is_space_def)

lemma backticks_not_in_tail:
  assumes none: "\<not> sublist (u ''```'') p"
    and last: "last p \<noteq> 96"
    and tail: "suffix s p" "s \<noteq> []"
  shows "\<not> prefix (u ''```'') (s @ rest)"
proof
  assume "prefix (u ''```'') (s @ rest)"
  then consider "prefix (u ''```'') s" | us where "u ''```'' = s @ us"
    by (auto simp: prefix_append)
  then show False
  proof cases
    case 1
    then have "sublist (u ''```'') s" by (rule prefix_imp_sublist)
    with tail(1) have "sublist (u ''```'') p"
      by (meson suffix_imp_sublist sublist_order.order_trans)
    with none show False ..
  next
    case 2
    have "last s \<in> set s" using tail(2) by (rule last_in_set)
    also have "set s \<subseteq> set (u ''```'')" unfolding 2 by simp
    finally have "last s = 96" by (simp add: u_def)
    moreover have "last s = last p"
      using tail by (auto simp: suffix_def)
    ultimately show False using last by simp
  qed
qed

lemma match_fence_inside_text:
  assumes none: "\<not> sublist (u ''```'') (c # pre)"
    and ends: "\<not> is_space (last (c # pre))" "last (c # pre) \<noteq> 96"
  shows "match_fence ((c # pre) @ rest) = None"
proof -
  have "\<not> prefix (u ''```'') ((c # pre) @ rest)"
    using none ends(2) by (rule backticks_not_in_tail) simp_all
  moreover have "prefix (u ''```'') (u ''```json'')" by (simp add: u_def)
  ultimately have first: "\<not> prefix (u ''```json'') ((c # pre) @ rest)"
    by (meson prefix_order.order_trans)
  have "last (c # pre) \<in> set (c # pre)" by (rule last_in_set) simp
  then have split: "dropWhile is_space ((c # pre) @ rest) = dropWhile is_space (c # pre) @ rest"
    using ends(1) by (rule dropWhile_append1)
  have nonempty: "dropWhile is_space (c # pre) \<noteq> []"
    using ends(1) \<open>last (c # pre) \<in> set (c # pre)\<close> by (metis dropWhile_eq_Nil_conv)
  have "suffix (dropWhile is_space (c # pre)) (c # pre)" by (rule suffix_dropWhile)
  with none ends(2) have "\<not> prefix (u ''```'') (dropWhile is_space (c # pre) @ rest)"
    using nonempty by (rule backticks_not_in_tail)
  then have second: "\<not> prefix (u ''```'') (dropWhile is_space ((c # pre) @ rest))"
    unfolding split .
  from first second show ?thesis by (simp add: match_fence_def)
qed

lemma match_fence_at_ticks:
  assumes ws: "\<forall>c \<in> set ws. is_space c"
  shows "match_fence (ws @ u ''```'' @ post)
           = Some (if ws = [] \<and> prefix (u ''json'') post
                   then dropWhile is_space (drop 4 post) else post)"
proof (cases "ws = []")
  case True
  have a: "prefix (u ''```json'') (u ''```'' @ post) \<longleftrightarrow> prefix (u ''json'') post"
    by (simp add: u_def)
  have b: "dropWhile is_space (u ''```'' @ post) = u ''```'' @ post"
    using backtick_not_space by (simp add: u_def)
  have c: "drop 7 (u ''```'' @ post) = drop 4 post" "drop 3 (u ''```'' @ post) = post"
    by (simp_all add: u_def)
  show ?thesis using True by (simp add: match_fence_def a b c del: drop_append)
next
  case False
  then obtain w ws' where w: "ws = w # ws'" by (cases ws) auto
  with ws have "is_space w" by simp
  then have "w \<noteq> 96" using backtick_not_space by auto
  then have first: "\<not> prefix (u ''```json'') (ws @ u ''```'' @ post)"
    by (simp add: w u_def)
  have "dropWhile is_space (ws @ u ''```'' @ post) = dropWhile is_space (u ''```'' @ post)"
    using ws by (intro dropWhile_append2) auto
  also have "\<dots> = u ''```'' @ post"
    using backtick_not_space by (simp add: u_def)
  finally have d: "dropWhile is_space (ws @ u ''```'' @ post) = u ''```'' @ post" .
  have "drop 3 (u ''```'' @ post) = post" by (simp add: u_def)
  then show ?thesis using False first by (simp add: match_fence_def d)
qed

lemma re_sub_fence_first_match:
  assumes none: "\<not> sublist (u ''```'') pre"
    and ends: "pre = [] \<or> \<not> is_space (last pre) \<and> last pre \<noteq> 96"
    and ws: "\<forall>c \<in> set ws. is_space c"
  shows "re_sub_fence (pre @ ws @ u ''```'' @ post)
           = pre @ re_sub_fence (if ws = [] \<and> prefix (u ''json'') post
                                 then dropWhile is_space (drop 4 post) else post)"
  using none ends
proof (induction pre)
  case Nil
  have "ws @ u ''```'' @ post \<noteq> []" by (simp add: u_def)
  from re_sub_fence_match [OF this match_fence_at_ticks [OF ws]]
  show ?case by simp
next
  case (Cons c pre)
  have none: "match_fence ((c # pre) @ ws @ u ''```'' @ post) = None"
    using Cons.prems by (intro match_fence_inside_text) auto
  have "\<not> sublist (u ''```'') pre"
    using Cons.prems(1) by (meson sublist_Cons_right)
  moreover have "pre = [] \<or> \<not> is_space (last pre) \<and> last pre \<noteq> 96"
    using Cons.prems(2) by (cases "pre = []") auto
  ultimately
  have "re_sub_fence (pre @ ws @ u ''```'' @ post)
           = pre @ re_sub_fence (if ws = [] \<and> prefix (u ''json'') post
                                 then dropWhile is_space (drop 4 post) else post)"
    by (rule Cons.IH)
  with none show ?case by simp
qed

lemma map_of_setitem: "map_of (setitem d k v) = (map_of d)(k \<mapsto> v)"
  by (induction d k v rule: setitem.induct) (auto simp: fun_eq_iff)

lemma content_neq_hashtags: "u ''content'' \<noteq> u ''hashtags''"
  by (simp add: u_def)

lemma add_ai_disclosure_str:
  assumes parsed: "loads post_json = Inr (JDict d)"
    and content: "map_of d (u ''content'') = Some (JStr content)"
  shows "add_ai_disclosure loads dumps post_json =
           Inr (dumps (JDict
             (setitem (setitem d (u ''content'') (JStr (content @ disclosure))) (u ''hashtags'')
                (JList ((case map_of d (u ''hashtags'') of Some (JList hs) \<Rightarrow> hs | _ \<Rightarrow> [])
                        @ ai_hashtags)))))"
  using parsed content content_neq_hashtags
  by (auto simp: add_ai_disclosure_def except_JSONDecodeError_def bind_def getitem_def
        map_of_setitem Let_def
           split: option.splits json.splits)

lemma ex_env_config: "LinkedInConfig_from_env ex_env =
      Inr \<lparr>api_url = u ''https://api.linkedin.com'', client_id = u ''id'',
           client_secret = u ''secret'', redirect_uri = u ''https://localhost/callback''\<rparr>"
  by (simp add: LinkedInConfig_from_env_def required_vars_def unset_def ex_env_def u_def)

lemma ex_env_generator: "LinkedInPostGenerator ex_env =
      Inr \<lparr>llm_model = u ''gemini'', llm_api_key = u ''key'', llm_api_type = u ''google''\<rparr>"
  by (simp add: LinkedInPostGenerator_def GeminiConfig_from_env_def unset_def ex_env_def u_def)















section \<open>Renderer\<close>

text \<open>
  C1. A draft whose \<open>title\<close>, \<open>content\<close> and \<open>question\<close> are non-empty strings, whose
  \<open>hashtags\<close> is a non-empty list of strings and whose \<open>code\<close> is absent, null or a
  string (\<open>code\<close> below is its text, empty when there is none) is rendered without an
  exception. The result is title, blank line, content, then the fenced block tagged
  \<open>c#\<close> when there is code, blank line, question, blank line and the hashtags joined by
  single spaces; so title, content and question occur in it in this order.
\<close>

theorem render_valid_record:
  assumes parsed: "loads post_json = Inr (JDict d)"
    and title: "map_of d (u ''title'') = Some (JStr title)" "title \<noteq> []"
    and content: "map_of d (u ''content'') = Some (JStr content)" "content \<noteq> []"
    and question: "map_of d (u ''question'') = Some (JStr question)" "question \<noteq> []"
    and hashtags: "map_of d (u ''hashtags'') = Some (JList hs)" "strs hs = Some tags" "tags \<noteq> []"
    and code: "map_of d (u ''code'') = None \<and> code = []
             \<or> map_of d (u ''code'') = Some JNull \<and> code = []
             \<or> map_of d (u ''code'') = Some (JStr code)"
  shows "convert_to_linkedin_post loads post_json =
           Inr (title @ u ''\<newline>\<newline>'' @ content
                @ (if code \<noteq> [] then u ''\<newline>\<newline>```c#\<newline>'' @ code @ u ''\<newline>```''
                   else [])
                @ u ''\<newline>\<newline>'' @ question @ u ''\<newline>\<newline>'' @ join (u '' '') tags)
         \<and> (\<exists>a b c e. convert_to_linkedin_post loads post_json
                          = Inr (a @ title @ b @ content @ c @ question @ e))"
proof -
  have hs: "hs \<noteq> []" using hashtags by auto
  have req: "filter (\<lambda>field. \<not> get_truthy d field) required_fields = []"
    using title content question hashtags hs
    by (simp add: required_fields_def get_truthy_def)
  have codet: "get_truthy d (u ''code'') = (code \<noteq> [])"
    using code by (auto simp: get_truthy_def)
  have codev: "code \<noteq> [] \<Longrightarrow> map_of d (u ''code'') = Some (JStr code)"
    using code by auto
  have eq: "convert_to_linkedin_post loads post_json =
           Inr (title @ u ''\<newline>\<newline>'' @ content
                @ (if code \<noteq> [] then u ''\<newline>\<newline>```c#\<newline>'' @ code @ u ''\<newline>```''
                   else [])
                @ u ''\<newline>\<newline>'' @ question @ u ''\<newline>\<newline>'' @ join (u '' '') tags)"
    using parsed req title content question hashtags codet codev
    by (simp add: convert_to_linkedin_post_def except_JSONDecodeError_def bind_def getitem_def
          py_join_def Let_def)
  have "\<exists>a b c e. convert_to_linkedin_post loads post_json
                    = Inr (a @ title @ b @ content @ c @ question @ e)"
    apply (subst eq)
    apply (rule exI [of _ "[]"])
    apply (rule exI [of _ "u ''\<newline>\<newline>''"])
    apply (rule exI [of _ "(if code \<noteq> [] then u ''\<newline>\<newline>```c#\<newline>'' @ code @ u ''\<newline>```''
                            else []) @ u ''\<newline>\<newline>''"])
    apply (rule exI [of _ "u ''\<newline>\<newline>'' @ join (u '' '') tags"])
    apply simp
    done
  with eq show ?thesis by (rule conjI)
qed

theorem render_valid_record_witness:
  "convert_to_linkedin_post (ex_loads (JDict ex_post)) ex_post_json =
     Inr (u ''T\<newline>\<newline>C\<newline>\<newline>```c#\<newline>x\<newline>```\<newline>\<newline>Q?\<newline>\<newline>#a #b'')"
  using render_valid_record [of "ex_loads (JDict ex_post)" ex_post_json ex_post
     "u ''T''" "u ''C''" "u ''Q?''" "[JStr (u ''#a''), JStr (u ''#b'')]"
     "[u ''#a'', u ''#b'']" "u ''x''"]
  by (simp add: ex_loads_def ex_post_def u_def)

text \<open>
  C2. Take the fields among \<open>title\<close>, \<open>content\<close>, \<open>hashtags\<close>, \<open>question\<close>, in this
  order, that are falsy in the parsed draft: absent, or holding null, false, zero, the
  empty string, the empty list or the empty object. When there is at least one,
  rendering raises a \<open>ValueError\<close> whose message is \<open>Missing required fields: \<close>
  followed by all of them, separated by commas; each of them occurs in the message.
\<close>

theorem render_missing_fields:
  assumes parsed: "loads post_json = Inr (JDict d)"
    and missing: "missing =
      filter (\<lambda>field.
                map_of d field \<in> {None, Some JNull, Some (JBool False), Some (JInt 0),
                                    Some (JStr []), Some (JList []), Some (JDict [])}
                \<or> (\<exists>e. map_of d field = Some (JFloat 0 e)))
        [u ''title'', u ''content'', u ''hashtags'', u ''question'']"
    and some: "missing \<noteq> []"
  shows "\<exists>msg. convert_to_linkedin_post loads post_json = Inl (Exc ValueError (Some msg) None)
           \<and> msg = u ''Missing required fields: '' @ join (u '', '') missing
           \<and> (\<forall>field \<in> set missing. sublist field msg)"
proof -
  have same: "missing = filter (\<lambda>field. \<not> get_truthy d field) required_fields"
    unfolding missing required_fields_def by (simp only: get_truthy_falsy)
  have "convert_to_linkedin_post loads post_json =
          Inl (Exc ValueError (Some (u ''Missing required fields: '' @ join (u '', '') missing)) None)"
    using parsed some unfolding same
    by (simp add: convert_to_linkedin_post_def except_JSONDecodeError_def raise_def Let_def)
  moreover have "\<forall>field \<in> set missing.
      sublist field (u ''Missing required fields: '' @ join (u '', '') missing)"
    by (simp add: sublist_append sublist_join)
  ultimately show ?thesis by blast
qed

theorem render_missing_fields_witness:
  "convert_to_linkedin_post (ex_loads (JDict ex_incomplete)) ex_incomplete_json =
     Inl (Exc ValueError
            (Some (u ''Missing required fields: title, content, hashtags, question'')) None)
   \<and> convert_to_linkedin_post (ex_loads (JDict ex_no_question)) ex_no_question_json =
     Inl (Exc ValueError (Some (u ''Missing required fields: question'')) None)"
proof -
  have all: "[u ''title'', u ''content'', u ''hashtags'', u ''question''] =
      filter (\<lambda>field.
                map_of ex_incomplete field \<in> {None, Some JNull, Some (JBool False), Some (JInt 0),
                                    Some (JStr []), Some (JList []), Some (JDict [])}
                \<or> (\<exists>e. map_of ex_incomplete field = Some (JFloat 0 e)))
        [u ''title'', u ''content'', u ''hashtags'', u ''question'']"
    by (simp add: ex_incomplete_def u_def)
  have one: "[u ''question''] =
      filter (\<lambda>field.
                map_of ex_no_question field \<in> {None, Some JNull, Some (JBool False), Some (JInt 0),
                                    Some (JStr []), Some (JList []), Some (JDict [])}
                \<or> (\<exists>e. map_of ex_no_question field = Some (JFloat 0 e)))
        [u ''title'', u ''content'', u ''hashtags'', u ''question'']"
    by (simp add: ex_no_question_def u_def)
  have msgs: "u ''Missing required fields: '' @ join (u '', '')
                 [u ''title'', u ''content'', u ''hashtags'', u ''question'']
              = u ''Missing required fields: title, content, hashtags, question''"
    "u ''Missing required fields: '' @ join (u '', '') [u ''question'']
              = u ''Missing required fields: question''"
    by (simp_all add: u_def)
  have parsed: "ex_loads (JDict ex_incomplete) ex_incomplete_json = Inr (JDict ex_incomplete)"
    "ex_loads (JDict ex_no_question) ex_no_question_json = Inr (JDict ex_no_question)"
    by (simp_all add: ex_loads_def)
  from render_missing_fields [of "ex_loads (JDict ex_incomplete)" ex_incomplete_json ex_incomplete,
      OF parsed(1) all]
  obtain m1 where "convert_to_linkedin_post (ex_loads (JDict ex_incomplete)) ex_incomplete_json
        = Inl (Exc ValueError (Some m1) None)"
    and "m1 = u ''Missing required fields: '' @ join (u '', '')
                 [u ''title'', u ''content'', u ''hashtags'', u ''question'']"
    by blast
  then have first: "convert_to_linkedin_post (ex_loads (JDict ex_incomplete)) ex_incomplete_json =
     Inl (Exc ValueError
            (Some (u ''Missing required fields: title, content, hashtags, question'')) None)"
    by (simp only: msgs)
  from render_missing_fields [of "ex_loads (JDict ex_no_question)" ex_no_question_json
      ex_no_question, OF parsed(2) one]
  obtain m2 where "convert_to_linkedin_post (ex_loads (JDict ex_no_question)) ex_no_question_json
        = Inl (Exc ValueError (Some m2) None)"
    and "m2 = u ''Missing required fields: '' @ join (u '', '') [u ''question'']"
    by blast
  then have "convert_to_linkedin_post (ex_loads (JDict ex_no_question)) ex_no_question_json =
     Inl (Exc ValueError (Some (u ''Missing required fields: question'')) None)"
    by (simp only: msgs)
  with first show ?thesis by (rule conjI)
qed

section \<open>Fence stripping\<close>

text \<open>
  C3, as amended. The step removes the fence delimiters wherever they occur, not only a
  leading and a trailing one, and it only deletes: the result is a subsequence of the
  input. For the wrapped input of the example it gives the bare JSON text, and it is
  the identity on every text without three consecutive backticks. Where a text is
  \<open>pre\<close>, then whitespace \<open>ws\<close>, then three backticks, then \<open>post\<close>, with no three
  consecutive backticks in \<open>pre\<close> and neither whitespace nor a backtick at its end, the
  result is \<open>pre\<close> followed by the result for what stands behind the delimiter: behind
  the backticks when \<open>post\<close> does not begin with \<open>json\<close>, and behind \<open>json\<close> and the
  whitespace after it when \<open>post\<close> begins with \<open>json\<close> and \<open>ws\<close> is empty. (Whitespace
  in front of a delimiter with \<open>json\<close> is not covered.)
\<close>

theorem fence_stripping:
  \<open>re_sub_fence (u ''```json\<newline>{"a":1}\<newline>```'') = u ''{"a":1}''
   \<and> (\<forall>s. \<not> sublist (u ''```'') s \<longrightarrow> re_sub_fence s = s)
   \<and> (\<forall>s. subseq (re_sub_fence s) s)
   \<and> (\<forall>pre ws post.
         \<not> sublist (u ''```'') pre
         \<and> (pre = [] \<or> \<not> is_space (last pre) \<and> last pre \<noteq> 96)
         \<and> (\<forall>c \<in> set ws. is_space c)
         \<longrightarrow> (\<not> prefix (u ''json'') post
                \<longrightarrow> re_sub_fence (pre @ ws @ u ''```'' @ post) = pre @ re_sub_fence post)
             \<and> (prefix (u ''json'') post \<and> ws = []
                \<longrightarrow> re_sub_fence (pre @ ws @ u ''```'' @ post)
                      = pre @ re_sub_fence (dropWhile is_space (drop 4 post))))\<close>
proof (intro conjI allI impI)
  show \<open>re_sub_fence (u ''```json\<newline>{"a":1}\<newline>```'') = u ''{"a":1}''\<close>
    by (simp add: match_fence_def u_def is_space_def)
next
  fix s :: pystr
  assume "\<not> sublist (u ''```'') s"
  then show "re_sub_fence s = s" by (rule re_sub_fence_id)
next
  fix s :: pystr
  show "subseq (re_sub_fence s) s" by (rule re_sub_fence_subseq)
next
  fix pre ws post :: pystr
  assume shape: "\<not> sublist (u ''```'') pre
         \<and> (pre = [] \<or> \<not> is_space (last pre) \<and> last pre \<noteq> 96)
         \<and> (\<forall>c \<in> set ws. is_space c)"
    and other: "\<not> prefix (u ''json'') post"
  from shape have "re_sub_fence (pre @ ws @ u ''```'' @ post)
           = pre @ re_sub_fence (if ws = [] \<and> prefix (u ''json'') post
                                 then dropWhile is_space (drop 4 post) else post)"
    by (intro re_sub_fence_first_match) auto
  with other show "re_sub_fence (pre @ ws @ u ''```'' @ post) = pre @ re_sub_fence post"
    by simp
next
  fix pre ws post :: pystr
  assume shape: "\<not> sublist (u ''```'') pre
         \<and> (pre = [] \<or> \<not> is_space (last pre) \<and> last pre \<noteq> 96)
         \<and> (\<forall>c \<in> set ws. is_space c)"
    and tagged: "prefix (u ''json'') post \<and> ws = []"
  from shape have "re_sub_fence (pre @ ws @ u ''```'' @ post)
           = pre @ re_sub_fence (if ws = [] \<and> prefix (u ''json'') post
                                 then dropWhile is_space (drop 4 post) else post)"
    by (intro re_sub_fence_first_match) auto
  with tagged show "re_sub_fence (pre @ ws @ u ''```'' @ post)
                      = pre @ re_sub_fence (dropWhile is_space (drop 4 post))"
    by simp
qed

theorem fence_stripping_witness:
  \<open>re_sub_fence (u ''{"a":1}'') = u ''{"a":1}''
   \<and> re_sub_fence (u ''{"a": "`x'' @ u '' '' @ u ''```'' @ u ''c#"}'') = u ''{"a": "`xc#"}''
   \<and> re_sub_fence (u ''Draft:'' @ [] @ u ''```'' @ u ''json\<newline>{"a":1}'') = u ''Draft:{"a":1}''\<close>
proof -
  have \<open>\<not> sublist (u ''```'') (u ''{"a":1}'')\<close>
    by (simp add: u_def sublist_code)
  with fence_stripping have bare: \<open>re_sub_fence (u ''{"a":1}'') = u ''{"a":1}''\<close>
    by blast
  have shape1: \<open>\<not> sublist (u ''```'') (u ''{"a": "`x'')
      \<and> (u ''{"a": "`x'' = [] \<or> \<not> is_space (last (u ''{"a": "`x'')) \<and> last (u ''{"a": "`x'') \<noteq> 96)
      \<and> (\<forall>c \<in> set (u '' ''). is_space c)\<close>
    by (simp add: u_def is_space_def sublist_code)
  have other: \<open>\<not> prefix (u ''json'') (u ''c#"}'')\<close>
    by (simp add: u_def)
  have rest: \<open>\<not> sublist (u ''```'') (u ''c#"}'')\<close>
    by (simp add: u_def sublist_code)
  with fence_stripping have tail: \<open>re_sub_fence (u ''c#"}'') = u ''c#"}''\<close>
    by blast
  from fence_stripping shape1 other
  have \<open>re_sub_fence (u ''{"a": "`x'' @ u '' '' @ u ''```'' @ u ''c#"}'')
          = u ''{"a": "`x'' @ re_sub_fence (u ''c#"}'')\<close>
    by blast
  then have interior: \<open>re_sub_fence (u ''{"a": "`x'' @ u '' '' @ u ''```'' @ u ''c#"}'')
          = u ''{"a": "`xc#"}''\<close>
    by (simp add: tail) (simp add: u_def)
  have shape2: \<open>\<not> sublist (u ''```'') (u ''Draft:'')
      \<and> (u ''Draft:'' = [] \<or> \<not> is_space (last (u ''Draft:'')) \<and> last (u ''Draft:'') \<noteq> 96)
      \<and> (\<forall>c \<in> set ([] :: pystr). is_space c)\<close>
    by (simp add: u_def is_space_def sublist_code)
  have tagged: \<open>prefix (u ''json'') (u ''json\<newline>{"a":1}'') \<and> ([] :: pystr) = []\<close>
    by (simp add: u_def)
  have cut: \<open>dropWhile is_space (drop 4 (u ''json\<newline>{"a":1}'')) = u ''{"a":1}''\<close>
    by (simp add: u_def is_space_def)
  from fence_stripping shape2 tagged
  have \<open>re_sub_fence (u ''Draft:'' @ [] @ u ''```'' @ u ''json\<newline>{"a":1}'')
          = u ''Draft:'' @ re_sub_fence (dropWhile is_space (drop 4 (u ''json\<newline>{"a":1}'')))\<close>
    by blast
  then have wrapped: \<open>re_sub_fence (u ''Draft:'' @ [] @ u ''```'' @ u ''json\<newline>{"a":1}'')
          = u ''Draft:{"a":1}''\<close>
    unfolding cut by (simp add: bare) (simp add: u_def)
  from bare interior wrapped show ?thesis by blast
qed

text \<open>
  The claim as stated fails on bare JSON text that holds a fenced snippet inside a
  string: the backticks in the interior, and the whitespace before them, are deleted.
\<close>

theorem fence_stripping_interior_counterexample:
  \<open>re_sub_fence (u ''{"content": "x ```c# y``` z"}'') = u ''{"content": "xc# y z"}''
   \<and> re_sub_fence (u ''{"content": "x ```c# y``` z"}'') \<noteq> u ''{"content": "x ```c# y``` z"}''\<close>
  by (simp add: match_fence_def u_def is_space_def)

section \<open>Disclosure\<close>

text \<open>
  C4, as amended. For a JSON object whose \<open>content\<close> is a string, one application
  appends the disclosure paragraph (a separator, then the sentence) to \<open>content\<close> and
  the two hashtags \<open>#AIGenerated\<close> and \<open>#GeminiAI\<close> to the \<open>hashtags\<close> list, which
  starts empty when the field is absent or not a list (\<open>tags\<close> below); no other field
  changes. Applied to its own output it appends both once more.
\<close>

theorem disclosure_once_twice:
  assumes parsed: "loads post_json = Inr (JDict d)"
    and content: "map_of d (u ''content'') = Some (JStr content)"
    and tags: "tags = (case map_of d (u ''hashtags'') of Some (JList hs) \<Rightarrow> hs | _ \<Rightarrow> [])"
    and once: "d1 = setitem (setitem d (u ''content'') (JStr (content @ disclosure)))
                      (u ''hashtags'')
                      (JList (tags @ [JStr (u ''#AIGenerated''), JStr (u ''#GeminiAI'')]))"
    and reparsed: "loads (dumps (JDict d1)) = Inr (JDict d1)"
  shows "add_ai_disclosure loads dumps post_json = Inr (dumps (JDict d1))
       \<and> map_of d1 = (map_of d)
            (u ''content'' \<mapsto> JStr (content @ disclosure),
             u ''hashtags'' \<mapsto> JList (tags @ [JStr (u ''#AIGenerated''), JStr (u ''#GeminiAI'')]))
       \<and> (\<exists>d2. add_ai_disclosure loads dumps (dumps (JDict d1)) = Inr (dumps (JDict d2))
            \<and> map_of d2 = (map_of d)
                 (u ''content'' \<mapsto> JStr (content @ disclosure @ disclosure),
                  u ''hashtags'' \<mapsto> JList (tags @ [JStr (u ''#AIGenerated''), JStr (u ''#GeminiAI''),
                                                  JStr (u ''#AIGenerated''), JStr (u ''#GeminiAI'')])))
       \<and> disclosure = u ''\<newline>\<newline>---\<newline>'' @ [0x1F916]
                        @ u '' This post was generated with the help of AI.''"
proof (intro conjI)
  show first: "add_ai_disclosure loads dumps post_json = Inr (dumps (JDict d1))"
    using add_ai_disclosure_str [of loads post_json d content dumps, OF parsed content]
    by (simp add: once tags ai_hashtags_def)
  show m1: "map_of d1 = (map_of d)
            (u ''content'' \<mapsto> JStr (content @ disclosure),
             u ''hashtags'' \<mapsto> JList (tags @ [JStr (u ''#AIGenerated''), JStr (u ''#GeminiAI'')]))"
    by (simp add: once map_of_setitem)
  have c1: "map_of d1 (u ''content'') = Some (JStr (content @ disclosure))"
    using content_neq_hashtags by (simp add: m1)
  have h1: "map_of d1 (u ''hashtags'')
              = Some (JList (tags @ [JStr (u ''#AIGenerated''), JStr (u ''#GeminiAI'')]))"
    by (simp add: m1)
  show "\<exists>d2. add_ai_disclosure loads dumps (dumps (JDict d1)) = Inr (dumps (JDict d2))
            \<and> map_of d2 = (map_of d)
                 (u ''content'' \<mapsto> JStr (content @ disclosure @ disclosure),
                  u ''hashtags'' \<mapsto> JList (tags @ [JStr (u ''#AIGenerated''), JStr (u ''#GeminiAI''),
                                                  JStr (u ''#AIGenerated''), JStr (u ''#GeminiAI'')]))"
    using add_ai_disclosure_str [of loads "dumps (JDict d1)" d1 "content @ disclosure" dumps, OF reparsed c1] content_neq_hashtags
    by (auto simp: h1 m1 map_of_setitem ai_hashtags_def fun_eq_iff intro!: exI)
  show "disclosure = u ''\<newline>\<newline>---\<newline>'' @ [0x1F916]
                        @ u '' This post was generated with the help of AI.''"
    by (simp add: disclosure_def)
qed

theorem disclosure_once_twice_witness:
  "add_ai_disclosure ex_codec_loads ex_codec_dumps [] = Inr (u ''1'')
   \<and> (\<exists>d2. add_ai_disclosure ex_codec_loads ex_codec_dumps (u ''1'') = Inr (ex_codec_dumps (JDict d2))
          \<and> map_of d2 (u ''content'') = Some (JStr (u ''C'' @ disclosure @ disclosure)))"
proof -
  have once: "ex_disclosed = setitem (setitem ex_draft (u ''content'') (JStr (u ''C'' @ disclosure)))
                      (u ''hashtags'')
                      (JList ([] @ [JStr (u ''#AIGenerated''), JStr (u ''#GeminiAI'')]))"
    by (simp add: ex_disclosed_def ex_draft_def u_def)
  have tags: "[] = (case map_of ex_draft (u ''hashtags'') of Some (JList hs) \<Rightarrow> hs | _ \<Rightarrow> [])"
    by (simp add: ex_draft_def u_def)
  have parsed: "ex_codec_loads [] = Inr (JDict ex_draft)"
    by (simp add: ex_codec_loads_def u_def)
  have content: "map_of ex_draft (u ''content'') = Some (JStr (u ''C''))"
    by (simp add: ex_draft_def)
  have reparsed: "ex_codec_loads (ex_codec_dumps (JDict ex_disclosed)) = Inr (JDict ex_disclosed)"
    by (simp add: ex_codec_loads_def ex_codec_dumps_def)
  have one: "ex_codec_dumps (JDict ex_disclosed) = u ''1''"
    by (simp add: ex_codec_dumps_def)
  note inst = disclosure_once_twice [of ex_codec_loads "[]" ex_draft "u ''C''" "[]" ex_disclosed
      ex_codec_dumps, OF parsed content tags once reparsed]
  from inst have first: "add_ai_disclosure ex_codec_loads ex_codec_dumps [] = Inr (u ''1'')"
    by (simp add: one)
  from inst obtain d2 where
    second: "add_ai_disclosure ex_codec_loads ex_codec_dumps (u ''1'') = Inr (ex_codec_dumps (JDict d2))"
    and m2: "map_of d2 = (map_of ex_draft)
                 (u ''content'' \<mapsto> JStr (u ''C'' @ disclosure @ disclosure),
                  u ''hashtags'' \<mapsto> JList ([] @ [JStr (u ''#AIGenerated''), JStr (u ''#GeminiAI''),
                                                  JStr (u ''#AIGenerated''), JStr (u ''#GeminiAI'')]))"
    unfolding one by blast
  have "map_of d2 (u ''content'') = Some (JStr (u ''C'' @ disclosure @ disclosure))"
    using content_neq_hashtags by (simp add: m2)
  with first second show ?thesis by blast
qed

text \<open>
  The claim as stated covers every JSON object; on one without \<open>content\<close> nothing is
  appended, a \<open>KeyError\<close> is raised.
\<close>

theorem disclosure_missing_content_counterexample:
  "add_ai_disclosure (ex_loads (JDict ex_no_content)) ex_codec_dumps ex_no_content_json
     = Inl (Exc KeyError (Some ([39] @ u ''content'' @ [39])) None)"
  by (simp add: add_ai_disclosure_def except_JSONDecodeError_def ex_loads_def ex_no_content_def
        bind_def getitem_def raise_def u_def)

text \<open>
  C10. When the text parses as a JSON object without a \<open>content\<close> key, the disclosure
  step raises \<open>KeyError\<close>; neither it nor \<open>generate_post\<close> catches it, and in \<open>main\<close> only
  the last handler, for any \<open>Exception\<close>, takes it: the run ends with the line
  \<open>Unexpected Error: 'content'\<close> and status 1, after one call of the backend.
\<close>

theorem missing_content_escapes:
  assumes parsed: "loads post_json = Inr (JDict d)"
    and absent: "map_of d (u ''content'') = None"
    and config: "LinkedInConfig_from_env env = Inr config"
    and generator: "LinkedInPostGenerator env = Inr self"
    and token: "\<not> unset env (u ''LINKEDIN_ACCESS_TOKEN'')"
    and summary: "chat self (create_linkedin_prompt (u ''C# generics'')) = Inr summary"
    and cleaned: "re_sub_fence summary = post_json"
  shows "add_ai_disclosure loads dumps post_json
           = Inl (Exc KeyError (Some ([39] @ u ''content'' @ [39])) None)
       \<and> generate_post loads dumps chat self (u ''C# generics'') True
           = ([ChatCall self (create_linkedin_prompt (u ''C# generics''))],
              Inl (Exc KeyError (Some ([39] @ u ''content'' @ [39])) None))
       \<and> main loads dumps chat py_str http env
           = ([Stdout Generating,
               ChatCall self (create_linkedin_prompt (u ''C# generics'')),
               Stderr UnexpectedError (Some (u ''Unexpected Error: '' @ [39] @ u ''content'' @ [39]))],
              1)"
proof (intro conjI)
  show a: "add_ai_disclosure loads dumps post_json
           = Inl (Exc KeyError (Some ([39] @ u ''content'' @ [39])) None)"
    using parsed absent
    by (simp add: add_ai_disclosure_def except_JSONDecodeError_def bind_def getitem_def raise_def)
  have topic: "u ''C# generics'' \<noteq> []" by (simp add: u_def)
  show g: "generate_post loads dumps chat self (u ''C# generics'') True
           = ([ChatCall self (create_linkedin_prompt (u ''C# generics''))],
              Inl (Exc KeyError (Some ([39] @ u ''content'' @ [39])) None))"
    using topic summary cleaned a
    by (simp add: generate_post_def bind_def Let_def)
  have t: "main_try loads dumps chat py_str http env
           = ([Stdout Generating, ChatCall self (create_linkedin_prompt (u ''C# generics''))],
              Inl (Exc KeyError (Some ([39] @ u ''content'' @ [39])) None))"
    using config generator token g
    by (simp add: main_try_def step_def)
  show "main loads dumps chat py_str http env
           = ([Stdout Generating,
               ChatCall self (create_linkedin_prompt (u ''C# generics'')),
               Stderr UnexpectedError (Some (u ''Unexpected Error: '' @ [39] @ u ''content'' @ [39]))],
              1)"
    by (simp add: main_def t main_except_def)
qed

theorem missing_content_escapes_witness:
  "main (ex_loads (JDict [])) ex_codec_dumps ex_chat ex_py_str ex_http_404 ex_env
     = ([Stdout Generating,
         ChatCall \<lparr>llm_model = u ''gemini'', llm_api_key = u ''key'', llm_api_type = u ''google''\<rparr>
           (create_linkedin_prompt (u ''C# generics'')),
         Stderr UnexpectedError (Some (u ''Unexpected Error: '' @ [39] @ u ''content'' @ [39]))],
        1)"
proof -
  have parsed: "ex_loads (JDict []) (u ''{}'') = Inr (JDict [])"
    by (simp add: ex_loads_def)
  have absent: "map_of ([] :: (pystr \<times> json) list) (u ''content'') = None"
    by simp
  have token: "\<not> unset ex_env (u ''LINKEDIN_ACCESS_TOKEN'')"
    by (simp add: unset_def ex_env_def u_def)
  have summary: "ex_chat \<lparr>llm_model = u ''gemini'', llm_api_key = u ''key'', llm_api_type = u ''google''\<rparr>
      (create_linkedin_prompt (u ''C# generics'')) = Inr (u ''```json\<newline>{}\<newline>```'')"
    by (simp add: ex_chat_def)
  have cleaned: "re_sub_fence (u ''```json\<newline>{}\<newline>```'') = u ''{}''"
    by (simp add: match_fence_def u_def is_space_def)
  from missing_content_escapes [where loads = "ex_loads (JDict [])" and chat = ex_chat
      and dumps = ex_codec_dumps and py_str = ex_py_str and http = ex_http_404,
      OF parsed absent ex_env_config ex_env_generator token summary cleaned]
  show ?thesis by simp
qed

section \<open>Prompt\<close>

text \<open>
  C5, as amended. The prompt builder is a function of the topic alone and has no check
  of its own: for every topic, the empty one too, it returns the instruction text with
  the topic in it. The empty topic is refused by \<open>generate_post\<close>, which calls the
  builder, with a \<open>ValueError\<close> and with no call of the backend. For the
  topic \<open>C# generics\<close> the prompt holds the topic, the range \<open>150-200\<close>, the fence tag
  for \<open>c#\<close> and the JSON object with the keys title, content, code, hashtags, question.
\<close>

theorem prompt_builder:
  \<open>generate_post loads dumps chat self [] add_disclosure =
      ([], Inl (Exc ValueError (Some (u ''Topic is required'')) None))
   \<and> (\<forall>topic. prefix (u ''Create an engaging LinkedIn post about '' @ topic
                       @ u ''. The post should:'') (create_linkedin_prompt topic))
   \<and> sublist (u ''C# generics'') (create_linkedin_prompt (u ''C# generics''))
   \<and> sublist (u ''150-200'') (create_linkedin_prompt (u ''C# generics''))
   \<and> sublist (u ''```c#'') (create_linkedin_prompt (u ''C# generics''))
   \<and> sublist (u ''{"title": "", "content": "", "code": "", "hashtags": [], "question": ""}'')
        (create_linkedin_prompt (u ''C# generics''))\<close>
proof (intro conjI allI)
  show "generate_post loads dumps chat self [] add_disclosure =
      ([], Inl (Exc ValueError (Some (u ''Topic is required'')) None))"
    by (simp add: generate_post_def raise_def)
  show "prefix (u ''Create an engaging LinkedIn post about '' @ topic @ u ''. The post should:'')
          (create_linkedin_prompt topic)" for topic
    by (simp add: create_linkedin_prompt_def u_def)
  show "sublist (u ''C# generics'') (create_linkedin_prompt (u ''C# generics''))"
    unfolding create_linkedin_prompt_def by (rule sublist_appendI)
  show "sublist (u ''150-200'') (create_linkedin_prompt (u ''C# generics''))"
    by (simp add: create_linkedin_prompt_def u_def sublist_code)
  show "sublist (u ''```c#'') (create_linkedin_prompt (u ''C# generics''))"
    by (simp add: create_linkedin_prompt_def u_def sublist_code)
  show \<open>sublist (u ''{"title": "", "content": "", "code": "", "hashtags": [], "question": ""}'')
        (create_linkedin_prompt (u ''C# generics''))\<close>
    by (simp add: create_linkedin_prompt_def u_def sublist_code)
qed

text \<open>
  The claim as stated has the prompt builder fail on the empty topic. It does not: it
  returns the instruction text with nothing where the topic goes.
\<close>

theorem prompt_builder_empty_topic_counterexample:
  "prefix (u ''Create an engaging LinkedIn post about . The post should:'')
     (create_linkedin_prompt [])
   \<and> create_linkedin_prompt [] \<noteq> []"
  by (simp add: create_linkedin_prompt_def u_def)

section \<open>LinkedIn client\<close>

text \<open>
  C7. With the empty access token both the service function and the wrapper of the
  entry point raise \<open>ValueError\<close> at once: no request is made, whatever the
  collaborator and the environment are.
\<close>

theorem userinfo_empty_token:
  "get_linkedin_userinfo http env [] =
     ([], Inl (Exc ValueError (Some (u ''Access token is required'')) None))
   \<and> fetch_linkedin_userinfo http env [] =
     ([], Inl (Exc ValueError (Some (u ''Access token is required'')) None))"
  by (simp add: get_linkedin_userinfo_def fetch_linkedin_userinfo_def raise_def)









end
